theory Spec2Isabelle
  imports Main "HOL-Library.AList"
begin

section \<open>Python strings\<close>

text \<open>
  A Python \<open>str\<close> is a sequence of code points. The model reads a \<^typ>\<open>char\<close> as a code
  point in the range 0..255; code points above 255 are outside the model. On that range
  \<open>isspace\<close> is the set of characters \<open>str.strip()\<close> removes, and \<open>lower_char\<close> is
  \<open>str.lower()\<close> on one character.
\<close>

definition isspace :: "char \<Rightarrow> bool" where
  "isspace c =
     (let n = (of_char c :: nat)
      in (9 \<le> n \<and> n \<le> 13) \<or> (28 \<le> n \<and> n \<le> 32) \<or> n = 133 \<or> n = 160)"

definition lower_char :: "char \<Rightarrow> char" where
  "lower_char c =
     (let n = (of_char c :: nat)
      in if (65 \<le> n \<and> n \<le> 90) \<or> (192 \<le> n \<and> n \<le> 222 \<and> n \<noteq> 215)
         then char_of (n + 32) else c)"

definition lower :: "string \<Rightarrow> string" where
  "lower s = map lower_char s"

definition lstrip :: "string \<Rightarrow> string" where
  "lstrip s = dropWhile isspace s"

definition rstrip :: "string \<Rightarrow> string" where
  "rstrip s = rev (dropWhile isspace (rev s))"

definition strip :: "string \<Rightarrow> string" where
  "strip s = rstrip (lstrip s)"

section \<open>Domain layer: the Task entity (app/domain/task.py)\<close>

datatype TaskStatus = PENDING | DONE

text \<open>\<open>TaskStatus.value\<close>: the string each member of the enumeration carries.\<close>

fun status_value :: "TaskStatus \<Rightarrow> string" where
  "status_value PENDING = ''pending''"
| "status_value DONE = ''done''"

text \<open>
  \<open>TaskStatus(v)\<close>: the lookup of a member by its value. Python raises \<open>ValueError\<close> when
  no member carries \<open>v\<close>; that is \<open>None\<close> here, and the caller turns it into its own error.
\<close>

definition TaskStatus_of_value :: "string \<Rightarrow> TaskStatus option" where
  "TaskStatus_of_value v =
     (if v = status_value PENDING then Some PENDING
      else if v = status_value DONE then Some DONE
      else None)"

record Task =
  task_id :: string
  title :: string
  status :: TaskStatus

text \<open>
  The exceptions the modelled code raises. A \<open>ValueError\<close> carries which of the source's
  three messages it was raised with.
\<close>

datatype value_error =
    Title_cannot_be_empty
  | Status_not_a_TaskStatus
  | Invalid_status string

datatype py_exception = ValueError value_error | AttributeError

text \<open>
  Python does not enforce the annotation \<open>status: TaskStatus\<close>, so the constructor can be
  handed any object; \<open>__post_init__\<close> tests it with \<open>isinstance\<close>.
\<close>

datatype py_value = EnumV TaskStatus | StrV string | NoneV

text \<open>
  \<open>Task(id=..., title=..., status=...)\<close>: the generated \<open>__init__\<close> followed by
  \<open>__post_init__\<close>. The title check comes first, then the status check.
\<close>

definition Task_init :: "string \<Rightarrow> string \<Rightarrow> py_value \<Rightarrow> py_exception + Task" where
  "Task_init i t s =
     (if t = [] \<or> strip t = [] then Inl (ValueError Title_cannot_be_empty)
      else (case s of
              EnumV st \<Rightarrow> Inr \<lparr>task_id = i, title = t, status = st\<rparr>
            | StrV _ \<Rightarrow> Inl (ValueError Status_not_a_TaskStatus)
            | NoneV \<Rightarrow> Inl (ValueError Status_not_a_TaskStatus)))"

record TaskResponse =
  r_id :: string
  r_title :: string
  r_status :: string

text \<open>\<open>Task.to_dict\<close>, read into the adapter's \<open>TaskResponse\<close> (the three keys of the dict).\<close>

definition to_dict :: "Task \<Rightarrow> TaskResponse" where
  "to_dict t = \<lparr>r_id = task_id t, r_title = title t, r_status = status_value (status t)\<rparr>"

definition mark_as_done :: "Task \<Rightarrow> py_exception + Task" where
  "mark_as_done self = Task_init (task_id self) (title self) (EnumV DONE)"

definition update_title :: "Task \<Rightarrow> string \<Rightarrow> py_exception + Task" where
  "update_title self new_title = Task_init (task_id self) new_title (EnumV (status self))"

text \<open>
  \<open>TaskFactory.create(title, status, task_id)\<close>. The last argument \<open>uuid4\<close> is the string
  \<open>str(uuid.uuid4())\<close> would return; it is read only when \<open>task_id\<close> is \<open>None\<close>.
\<close>

definition create :: "string \<Rightarrow> string \<Rightarrow> string option \<Rightarrow> string \<Rightarrow> py_exception + Task" where
  "create ttl st tid uuid4 =
     (case TaskStatus_of_value (lower st) of
        None \<Rightarrow> Inl (ValueError (Invalid_status st))
      | Some task_status \<Rightarrow>
          (let i = (case tid of None \<Rightarrow> uuid4 | Some given \<Rightarrow> given)
           in Task_init i (strip ttl) (EnumV task_status)))"

section \<open>Persistence adapter: MemoryTaskRepository\<close>

text \<open>
  The repository's state is the dict \<open>_tasks\<close>. A Python dict keeps insertion order:
  assigning to a key that is present replaces the value in place, assigning to a new key
  appends, \<open>del\<close> removes the entry. That is an association list with \<open>AList.update\<close> and
  \<open>AList.delete\<close>. Every operation takes the state and returns its result with the new
  state.
\<close>

type_synonym repo = "(string \<times> Task) list"

definition contains :: "repo \<Rightarrow> string \<Rightarrow> bool" where
  "contains r k = (k \<in> fst ` set r)"

definition save :: "repo \<Rightarrow> Task \<Rightarrow> Task \<times> repo" where
  "save r task = (task, AList.update (task_id task) task r)"

definition find_all :: "repo \<Rightarrow> Task list" where
  "find_all r = map snd r"

definition find_by_id :: "repo \<Rightarrow> string \<Rightarrow> Task option" where
  "find_by_id r k = map_of r k"

definition update :: "repo \<Rightarrow> Task \<Rightarrow> Task option \<times> repo" where
  "update r task =
     (if \<not> contains r (task_id task) then (None, r)
      else (Some task, AList.update (task_id task) task r))"

definition delete :: "repo \<Rightarrow> string \<Rightarrow> bool \<times> repo" where
  "delete r k =
     (if contains r k then (True, AList.delete k r) else (False, r))"

definition clear :: "repo \<Rightarrow> repo" where
  "clear r = []"

section \<open>Application layer: TaskService\<close>

text \<open>
  Each use case returns its result, or the exception it raised, together with the state
  of the repository afterwards.
\<close>

definition create_task :: "repo \<Rightarrow> string \<Rightarrow> string \<Rightarrow> string \<Rightarrow> (py_exception + Task) \<times> repo" where
  "create_task r ttl st uuid4 =
     (case create ttl st None uuid4 of
        Inl e \<Rightarrow> (Inl e, r)
      | Inr task \<Rightarrow> (let (saved, r') = save r task in (Inr saved, r')))"

definition get_all_tasks :: "repo \<Rightarrow> Task list" where
  "get_all_tasks r = find_all r"

definition get_task_by_id :: "repo \<Rightarrow> string \<Rightarrow> Task option" where
  "get_task_by_id r k = find_by_id r k"

text \<open>
  \<open>update_task\<close> hands the factory \<open>task_id=task_id\<close>, so the factory never calls
  \<open>uuid.uuid4()\<close>; the empty string stands for the value that is never read.
\<close>

definition update_task ::
  "repo \<Rightarrow> string \<Rightarrow> string option \<Rightarrow> string option \<Rightarrow> (py_exception + Task option) \<times> repo" where
  "update_task r k ttl st =
     (case find_by_id r k of
        None \<Rightarrow> (Inr None, r)
      | Some existing_task \<Rightarrow>
          (let new_title = (case ttl of Some t \<Rightarrow> t | None \<Rightarrow> title existing_task);
               new_status = (case st of Some s \<Rightarrow> s | None \<Rightarrow> status_value (status existing_task))
           in (case create new_title new_status (Some k) [] of
                 Inl e \<Rightarrow> (Inl e, r)
               | Inr updated_task \<Rightarrow>
                   (let (res, r') = update r updated_task in (Inr res, r')))))"

definition delete_task :: "repo \<Rightarrow> string \<Rightarrow> bool \<times> repo" where
  "delete_task r k = delete r k"

definition get_tasks_by_status :: "repo \<Rightarrow> string \<Rightarrow> Task list" where
  "get_tasks_by_status r st =
     filter (\<lambda>task. status_value (status task) = lower st) (find_all r)"

section \<open>HTTP adapter: GET /tasks (app/adapters/http/fastapi_app.py)\<close>

text \<open>
  What a request ends in: the handler returns (FastAPI answers with the route's status
  code, 200, and the body), it raises \<open>HTTPException\<close> with a status code, or another
  exception leaves the handler.
\<close>

datatype http_outcome =
    Response nat "TaskResponse list"
  | HTTPException nat
  | Unhandled py_exception

datatype raised = Raised_HTTPException nat | Raised py_exception

text \<open>
  Inside \<open>get_tasks\<close> the name \<open>status\<close> is the query parameter
  (\<open>status: Optional[str] = None\<close>), which hides the module \<open>fastapi.status\<close> imported at
  the top of the file. \<open>status.HTTP_400_BAD_REQUEST\<close> and
  \<open>status.HTTP_500_INTERNAL_SERVER_ERROR\<close> are therefore attribute look-ups on a \<open>str\<close>
  or on \<open>None\<close>; neither has such an attribute, and Python raises \<open>AttributeError\<close>.
\<close>

definition getattr_param :: "string option \<Rightarrow> string \<Rightarrow> py_exception + nat" where
  "getattr_param obj name = Inl AttributeError"

text \<open>The body of the \<open>try\<close> block.\<close>

definition get_tasks_try :: "repo \<Rightarrow> string option \<Rightarrow> raised + TaskResponse list" where
  "get_tasks_try r st =
     (case (case st of
              None \<Rightarrow> Inr (get_all_tasks r)
            | Some s \<Rightarrow>
                if s = [] then Inr (get_all_tasks r)
                else if lower s \<notin> set [''pending'', ''done''] then
                  (case getattr_param st ''HTTP_400_BAD_REQUEST'' of
                     Inl e \<Rightarrow> Inl (Raised e)
                   | Inr code \<Rightarrow> Inl (Raised_HTTPException code))
                else Inr (get_tasks_by_status r s)) of
        Inl e \<Rightarrow> Inl e
      | Inr tasks \<Rightarrow> Inr (map to_dict tasks))"

text \<open>
  The handler: \<open>except Exception\<close> catches whatever the body raised (\<open>HTTPException\<close> is a
  subclass of \<open>Exception\<close>) and evaluates \<open>status.HTTP_500_INTERNAL_SERVER_ERROR\<close> to build
  its own \<open>HTTPException\<close>.
\<close>

definition get_tasks :: "repo \<Rightarrow> string option \<Rightarrow> http_outcome" where
  "get_tasks r st =
     (case get_tasks_try r st of
        Inr body \<Rightarrow> Response 200 body
      | Inl e \<Rightarrow>
          (case getattr_param st ''HTTP_500_INTERNAL_SERVER_ERROR'' of
             Inl e' \<Rightarrow> Unhandled e'
           | Inr code \<Rightarrow> HTTPException code))"

section \<open>Notions of the specification\<close>

text \<open>Two strings match case-insensitively when their lowercase forms are equal.\<close>

definition matches_ci :: "string \<Rightarrow> string \<Rightarrow> bool" where
  "matches_ci a b = (lower a = lower b)"

text \<open>The invariant of a Task: a title that is neither empty nor blank, a defined status.\<close>

definition task_invariant :: "Task \<Rightarrow> bool" where
  "task_invariant t = (title t \<noteq> [] \<and> strip (title t) \<noteq> [] \<and> status t \<in> {PENDING, DONE})"

section \<open>Strings: trimming and lowercase\<close>

lemma dropWhile_fix: "xs = [] \<or> \<not> P (hd xs) \<Longrightarrow> dropWhile P xs = xs"
  by (cases xs) auto

lemma last_dropWhile: "dropWhile P xs \<noteq> [] \<Longrightarrow> last (dropWhile P xs) = last xs"
  by (induction xs) (auto split: if_splits)

text \<open>After both ends are trimmed, the first character is not white space.\<close>

lemma lstrip_rstrip_lstrip: "lstrip (rstrip (lstrip s)) = rstrip (lstrip s)"
proof (cases "rstrip (lstrip s) = []")
  case True
  then show ?thesis by (simp add: lstrip_def)
next
  case False
  define a where "a = dropWhile isspace s"
  define b where "b = dropWhile isspace (rev a)"
  from False have b: "b \<noteq> []"
    by (simp add: rstrip_def lstrip_def a_def b_def)
  then have a: "a \<noteq> []"
    by (auto simp: b_def)
  have "hd (rev b) = last b"
    using b by (simp add: hd_rev)
  also have "\<dots> = last (rev a)"
    using b unfolding b_def by (rule last_dropWhile)
  also have "\<dots> = hd a"
    using a by (simp add: last_rev)
  finally have "\<not> isspace (hd (rev b))"
    using a hd_dropWhile [of isspace s] by (simp add: a_def)
  then have "dropWhile isspace (rev b) = rev b"
    by (simp add: dropWhile_fix)
  then show ?thesis
    by (simp add: rstrip_def lstrip_def a_def b_def)
qed

lemma rstrip_idem: "rstrip (rstrip s) = rstrip s"
  by (simp add: rstrip_def)

lemma strip_idem: "strip (strip s) = strip s"
  by (simp add: strip_def lstrip_rstrip_lstrip rstrip_idem)

lemma strip_Nil: "strip [] = []"
  by (simp add: strip_def lstrip_def rstrip_def)

lemma lower_pending: "lower ''pending'' = ''pending''"
  by code_simp

lemma lower_done: "lower ''done'' = ''done''"
  by code_simp

lemma lower_status_value: "lower (status_value s) = status_value s"
  by (cases s) (simp_all add: lower_pending lower_done)

section \<open>The enumeration and the constructor\<close>

lemma TaskStatus_of_value_status_value: "TaskStatus_of_value (status_value s) = Some s"
  by (cases s) (simp_all add: TaskStatus_of_value_def)

lemma TaskStatus_of_value_Some: "TaskStatus_of_value v = Some s \<longleftrightarrow> v = status_value s"
  by (cases s) (auto simp: TaskStatus_of_value_def split: if_splits)

lemma Task_init_ok:
  "strip t \<noteq> [] \<Longrightarrow> Task_init i t (EnumV s) = Inr \<lparr>task_id = i, title = t, status = s\<rparr>"
  by (auto simp: Task_init_def strip_Nil)

lemma Task_init_blank:
  "strip t = [] \<Longrightarrow> Task_init i t v = Inl (ValueError Title_cannot_be_empty)"
  by (simp add: Task_init_def)

lemma Task_init_Inr:
  "Task_init i t v = Inr task \<longleftrightarrow>
     strip t \<noteq> [] \<and> (\<exists>st. v = EnumV st \<and> task = \<lparr>task_id = i, title = t, status = st\<rparr>)"
proof (cases "strip t = []")
  case True
  then show ?thesis by (simp add: Task_init_def)
next
  case False
  then have "t \<noteq> []" by (auto simp: strip_Nil)
  with False show ?thesis
    by (cases v) (auto simp: Task_init_def)
qed

lemma status_defined: "st \<in> {PENDING, DONE}"
  by (cases st) simp_all

lemma Task_init_invariant:
  assumes "Task_init i t v = Inr task"
  shows "task_invariant task \<and> task_id task = i"
proof -
  from assms obtain st where ne: "strip t \<noteq> []"
    and task: "task = \<lparr>task_id = i, title = t, status = st\<rparr>"
    unfolding Task_init_Inr by blast
  from ne have "t \<noteq> []" by (auto simp: strip_Nil)
  with ne task status_defined [of st] show ?thesis
    by (simp add: task_invariant_def)
qed

lemma create_ok:
  "strip t \<noteq> [] \<Longrightarrow> lower s = status_value st \<Longrightarrow>
   create t s tid u =
     Inr \<lparr>task_id = (case tid of None \<Rightarrow> u | Some given \<Rightarrow> given), title = strip t, status = st\<rparr>"
  by (simp add: create_def TaskStatus_of_value_status_value Task_init_ok strip_idem)

lemma create_Inr:
  assumes "create t s tid u = Inr task"
  shows "strip t \<noteq> [] \<and> lower s = status_value (status task) \<and> title task = strip t"
proof (cases "TaskStatus_of_value (lower s)")
  case None
  with assms show ?thesis by (simp add: create_def)
next
  case (Some st)
  with assms have
    "Task_init (case tid of None \<Rightarrow> u | Some given \<Rightarrow> given) (strip t) (EnumV st) = Inr task"
    by (simp add: create_def)
  then have "strip (strip t) \<noteq> []"
    and "task = \<lparr>task_id = (case tid of None \<Rightarrow> u | Some given \<Rightarrow> given),
                 title = strip t, status = st\<rparr>"
    unfolding Task_init_Inr by simp_all
  with Some show ?thesis
    by (simp add: strip_idem TaskStatus_of_value_Some)
qed

text \<open>Every title the factory produces is already trimmed.\<close>

lemma create_title_trimmed: "create t s tid u = Inr task \<Longrightarrow> strip (title task) = title task"
  by (simp add: create_Inr strip_idem)

lemma create_invariant: "create t s tid u = Inr task \<Longrightarrow> task_invariant task"
  by (auto simp: create_def Let_def split: option.splits dest: Task_init_invariant)

lemma contains_find_by_id: "contains r k \<longleftrightarrow> find_by_id r k \<noteq> None"
  by (simp add: contains_def find_by_id_def map_of_eq_None_iff)

section \<open>The factory\<close>

text \<open>
  Claim C2. When the trimmed title is not empty and the status is \<open>pending\<close> or \<open>done\<close> up
  to case, \<open>TaskFactory.create\<close> returns a Task: its title is the trimmed input, its status
  is the member of the enumeration whose value is the lowercase input, and its id is the
  given id, or the generated one when no id is given.
\<close>

theorem create_valid:
  assumes "strip ttl \<noteq> []"
    and "lower st = ''pending'' \<or> lower st = ''done''"
  shows "create ttl st tid uuid4 =
           Inr \<lparr>task_id = (case tid of None \<Rightarrow> uuid4 | Some given \<Rightarrow> given),
                title = strip ttl,
                status = (if lower st = ''pending'' then PENDING else DONE)\<rparr>
         \<and> status_value (if lower st = ''pending'' then PENDING else DONE) = lower st"
proof -
  let ?s = "if lower st = ''pending'' then PENDING else DONE"
  from assms(2) have s: "lower st = status_value ?s" by auto
  from create_ok [OF assms(1) s] s show ?thesis by simp
qed

theorem create_valid_witness:
  "strip ''  Buy milk '' \<noteq> []
   \<and> (lower ''DoNe'' = ''pending'' \<or> lower ''DoNe'' = ''done'')
   \<and> create ''  Buy milk '' ''DoNe'' None ''u-1'' =
       Inr \<lparr>task_id = ''u-1'', title = ''Buy milk'', status = DONE\<rparr>
   \<and> create ''  Buy milk '' ''DoNe'' (Some ''42'') ''u-1'' =
       Inr \<lparr>task_id = ''42'', title = ''Buy milk'', status = DONE\<rparr>"
proof -
  have t: "strip ''  Buy milk '' = ''Buy milk''" by code_simp
  have l: "lower ''DoNe'' = ''done''" by code_simp
  have h1: "strip ''  Buy milk '' \<noteq> []" by (simp add: t)
  have h2: "lower ''DoNe'' = ''pending'' \<or> lower ''DoNe'' = ''done''" by (simp add: l)
  from create_valid [OF h1 h2, of None "''u-1''"] create_valid [OF h1 h2, of "Some ''42''" "''u-1''"]
    h1 h2 show ?thesis by (simp add: t l)
qed

text \<open>
  Claim C3. When the trimmed title is empty, or the status is neither \<open>pending\<close> nor
  \<open>done\<close> up to case, \<open>TaskFactory.create\<close> raises \<open>ValueError\<close>, and
  \<open>TaskService.create_task\<close> raises the same error and leaves the repository as it was.
\<close>

theorem create_invalid_rejected:
  assumes "strip ttl = [] \<or> (lower st \<noteq> ''pending'' \<and> lower st \<noteq> ''done'')"
  shows "\<exists>m. create ttl st tid uuid4 = Inl (ValueError m)
           \<and> create_task r ttl st uuid4 = (Inl (ValueError m), r)"
proof (cases "TaskStatus_of_value (lower st)")
  case None
  then show ?thesis by (simp add: create_def create_task_def)
next
  case (Some s)
  then have "lower st = ''pending'' \<or> lower st = ''done''"
    by (cases s) (simp_all add: TaskStatus_of_value_Some)
  with assms have "strip ttl = []" by blast
  then have "strip (strip ttl) = []" by (simp add: strip_Nil)
  with Some show ?thesis
    by (simp add: create_def create_task_def Task_init_blank)
qed

theorem create_invalid_rejected_witness:
  "(strip ''   '' = [] \<or> (lower ''pending'' \<noteq> ''pending'' \<and> lower ''pending'' \<noteq> ''done''))
   \<and> create ''   '' ''pending'' None ''u-1'' = Inl (ValueError Title_cannot_be_empty)
   \<and> create_task [(''1'', \<lparr>task_id = ''1'', title = ''a'', status = PENDING\<rparr>)]
         ''   '' ''pending'' ''u-1''
       = (Inl (ValueError Title_cannot_be_empty),
          [(''1'', \<lparr>task_id = ''1'', title = ''a'', status = PENDING\<rparr>)])"
proof -
  let ?r = "[(''1'', \<lparr>task_id = ''1'', title = ''a'', status = PENDING\<rparr>)]"
  have "strip ''   '' = []" by code_simp
  then have h: "strip ''   '' = [] \<or> (lower ''pending'' \<noteq> ''pending'' \<and> lower ''pending'' \<noteq> ''done'')"
    by simp
  from create_invalid_rejected [OF h, of None "''u-1''" ?r]
  obtain m where c: "create ''   '' ''pending'' None ''u-1'' = Inl (ValueError m)"
    and s: "create_task ?r ''   '' ''pending'' ''u-1'' = (Inl (ValueError m), ?r)"
    by blast
  have "create ''   '' ''pending'' None ''u-1'' = Inl (ValueError Title_cannot_be_empty)"
    by code_simp
  with c have "m = Title_cannot_be_empty" by simp
  with h c s show ?thesis by simp
qed

section \<open>The repository\<close>

text \<open>
  Claim C5. \<open>save\<close> returns the task it was given, and \<open>find_by_id\<close> with that task's id
  on the repository after the save returns the same task, equal in every field.
\<close>

theorem save_find_by_id_roundtrip:
  "fst (save r task) = task \<and> find_by_id (snd (save r task)) (task_id task) = Some task"
  by (simp add: find_by_id_def save_def update_conv')

theorem save_find_by_id_roundtrip_witness:
  "find_by_id (snd (save [(''1'', \<lparr>task_id = ''1'', title = ''old'', status = PENDING\<rparr>)]
                     \<lparr>task_id = ''1'', title = ''new'', status = DONE\<rparr>)) ''1''
     = Some \<lparr>task_id = ''1'', title = ''new'', status = DONE\<rparr>"
  using save_find_by_id_roundtrip
    [of "[(''1'', \<lparr>task_id = ''1'', title = ''old'', status = PENDING\<rparr>)]"
        "\<lparr>task_id = ''1'', title = ''new'', status = DONE\<rparr>"]
  by simp

text \<open>
  Claim C6. Deleting an id that is not stored returns \<open>False\<close> and leaves the repository as
  it was; for any id, a second delete right after the first returns \<open>False\<close>.
\<close>

theorem delete_absent_and_twice:
  "(find_by_id r k = None \<longrightarrow> delete r k = (False, r))
   \<and> fst (delete (snd (delete r k)) k) = False"
proof -
  have "\<not> contains (AList.delete k r) k"
    by (simp add: contains_def delete_keys flip: set_map)
  then show ?thesis
    by (simp add: delete_def contains_find_by_id)
qed

theorem delete_absent_and_twice_witness:
  "find_by_id [(''1'', \<lparr>task_id = ''1'', title = ''a'', status = PENDING\<rparr>)] ''2'' = None
   \<and> delete [(''1'', \<lparr>task_id = ''1'', title = ''a'', status = PENDING\<rparr>)] ''2''
       = (False, [(''1'', \<lparr>task_id = ''1'', title = ''a'', status = PENDING\<rparr>)])
   \<and> fst (delete (snd (delete [(''1'', \<lparr>task_id = ''1'', title = ''a'', status = PENDING\<rparr>)] ''1'')) ''1'')
       = False"
proof -
  let ?r = "[(''1'', \<lparr>task_id = ''1'', title = ''a'', status = PENDING\<rparr>)]"
  have h: "find_by_id ?r ''2'' = None" by (simp add: find_by_id_def)
  from delete_absent_and_twice [of ?r "''2''"] delete_absent_and_twice [of ?r "''1''"] h
  show ?thesis by blast
qed

section \<open>The service: filtering\<close>

text \<open>
  Claim C7. For every repository and every filter value, \<open>get_tasks_by_status\<close> returns the
  tasks of \<open>find_all\<close> whose status value matches the filter case-insensitively, all of them
  and no others, in the order \<open>find_all\<close> yields them.
\<close>

theorem get_tasks_by_status_exact:
  "get_tasks_by_status r st =
     filter (\<lambda>task. matches_ci (status_value (status task)) st) (find_all r)"
  by (simp add: get_tasks_by_status_def matches_ci_def lower_status_value)

theorem get_tasks_by_status_exact_witness:
  "get_tasks_by_status
     [(''1'', \<lparr>task_id = ''1'', title = ''a'', status = DONE\<rparr>),
      (''2'', \<lparr>task_id = ''2'', title = ''b'', status = PENDING\<rparr>),
      (''3'', \<lparr>task_id = ''3'', title = ''c'', status = DONE\<rparr>)] ''Done''
   = [\<lparr>task_id = ''1'', title = ''a'', status = DONE\<rparr>,
      \<lparr>task_id = ''3'', title = ''c'', status = DONE\<rparr>]"
proof -
  have l: "lower ''Done'' = ''done''" by code_simp
  show ?thesis
    using get_tasks_by_status_exact
      [of "[(''1'', \<lparr>task_id = ''1'', title = ''a'', status = DONE\<rparr>),
            (''2'', \<lparr>task_id = ''2'', title = ''b'', status = PENDING\<rparr>),
            (''3'', \<lparr>task_id = ''3'', title = ''c'', status = DONE\<rparr>)]" "''Done''"]
    by (simp add: matches_ci_def l lower_pending lower_done find_all_def)
qed

text \<open>
  Claim C9. For a filter value that is neither \<open>pending\<close> nor \<open>done\<close> up to case (the
  system reads every status case-insensitively), \<open>get_tasks_by_status\<close> raises nothing and
  returns the empty list, whatever the repository holds.
\<close>

theorem get_tasks_by_status_unknown_empty:
  assumes "lower st \<noteq> ''pending''" and "lower st \<noteq> ''done''"
  shows "get_tasks_by_status r st = []"
proof -
  have "status_value (status task) \<noteq> lower st" for task :: Task
    using assms by (cases "status task") auto
  then show ?thesis by (simp add: get_tasks_by_status_def)
qed

theorem get_tasks_by_status_unknown_empty_witness:
  "lower ''xyz'' \<noteq> ''pending'' \<and> lower ''xyz'' \<noteq> ''done''
   \<and> get_tasks_by_status
       [(''1'', \<lparr>task_id = ''1'', title = ''a'', status = DONE\<rparr>),
        (''2'', \<lparr>task_id = ''2'', title = ''b'', status = PENDING\<rparr>)] ''xyz'' = []"
proof -
  have l: "lower ''xyz'' = ''xyz''" by code_simp
  have h1: "lower ''xyz'' \<noteq> ''pending''" and h2: "lower ''xyz'' \<noteq> ''done''"
    by (simp_all add: l)
  from get_tasks_by_status_unknown_empty [OF h1 h2] h1 h2 show ?thesis by blast
qed

section \<open>The service: updating\<close>

text \<open>
  Claim C10. For an id that is stored, \<open>update_task\<close> with the empty string as title takes
  the empty string as the new title: it raises \<open>ValueError\<close> and leaves the repository as
  it was. With no status supplied the error is the one for an empty title.
\<close>

theorem update_task_empty_title_rejected:
  assumes "find_by_id r k = Some existing"
  shows "update_task r k (Some []) None = (Inl (ValueError Title_cannot_be_empty), r)
         \<and> (\<exists>m. update_task r k (Some []) st = (Inl (ValueError m), r))"
proof -
  have a: "create [] s (Some k) [] = Inl (ValueError Title_cannot_be_empty)
           \<or> create [] s (Some k) [] = Inl (ValueError (Invalid_status s))" for s
    by (simp add: create_def strip_Nil Task_init_blank split: option.split)
  have b: "create [] (status_value (status existing)) (Some k) [] = Inl (ValueError Title_cannot_be_empty)"
    by (simp add: create_def strip_Nil Task_init_blank lower_status_value TaskStatus_of_value_status_value)
  show ?thesis
  proof (cases st)
    case None
    with assms b show ?thesis by (simp add: update_task_def)
  next
    case (Some s)
    with assms a [of s] b show ?thesis by (auto simp: update_task_def)
  qed
qed

theorem update_task_empty_title_rejected_witness:
  "find_by_id [(''1'', \<lparr>task_id = ''1'', title = ''a'', status = PENDING\<rparr>)] ''1''
     = Some \<lparr>task_id = ''1'', title = ''a'', status = PENDING\<rparr>
   \<and> update_task [(''1'', \<lparr>task_id = ''1'', title = ''a'', status = PENDING\<rparr>)] ''1'' (Some []) None
     = (Inl (ValueError Title_cannot_be_empty), [(''1'', \<lparr>task_id = ''1'', title = ''a'', status = PENDING\<rparr>)])"
proof -
  let ?r = "[(''1'', \<lparr>task_id = ''1'', title = ''a'', status = PENDING\<rparr>)]"
  have h: "find_by_id ?r ''1'' = Some \<lparr>task_id = ''1'', title = ''a'', status = PENDING\<rparr>"
    by (simp add: find_by_id_def)
  from update_task_empty_title_rejected [OF h] h show ?thesis by blast
qed

text \<open>
  Claim C4. For an id that is stored: \<open>update_task\<close> with only a status, one the factory
  accepts, returns the task with that id, the new status and the stored title trimmed of
  surrounding white space, provided the stored title is not blank; the title is therefore
  unchanged whenever the stored title is already trimmed, as every title the factory
  produces is (\<open>create_title_trimmed\<close>). With only a title whose trim is not empty it
  returns the task with the trimmed new title and the stored status. In both cases the
  merged task replaces the stored one under the same id. For an id that is not stored it
  returns \<open>None\<close> and the repository is as it was.
\<close>

theorem update_task_merge:
  "(find_by_id r k = Some existing \<and> strip (title existing) \<noteq> []
      \<and> lower s = status_value new_status \<longrightarrow>
      update_task r k None (Some s) =
        (Inr (Some \<lparr>task_id = k, title = strip (title existing), status = new_status\<rparr>),
         AList.update k \<lparr>task_id = k, title = strip (title existing), status = new_status\<rparr> r)
      \<and> find_by_id (snd (update_task r k None (Some s))) k =
          Some \<lparr>task_id = k, title = strip (title existing), status = new_status\<rparr>)
   \<and> (find_by_id r k = Some existing \<and> strip new_title \<noteq> [] \<longrightarrow>
      update_task r k (Some new_title) None =
        (Inr (Some \<lparr>task_id = k, title = strip new_title, status = status existing\<rparr>),
         AList.update k \<lparr>task_id = k, title = strip new_title, status = status existing\<rparr> r)
      \<and> find_by_id (snd (update_task r k (Some new_title) None)) k =
          Some \<lparr>task_id = k, title = strip new_title, status = status existing\<rparr>)
   \<and> (find_by_id r k = None \<longrightarrow> update_task r k ttl st = (Inr None, r))"
proof -
  have upd: "update r task = (Some task, AList.update k task r)"
    if "find_by_id r k = Some existing" and "task_id task = k" for task
    using that by (simp add: update_def contains_find_by_id)
  have a: "update_task r k None (Some s) =
        (Inr (Some \<lparr>task_id = k, title = strip (title existing), status = new_status\<rparr>),
         AList.update k \<lparr>task_id = k, title = strip (title existing), status = new_status\<rparr> r)"
    if "find_by_id r k = Some existing" and "strip (title existing) \<noteq> []"
      and "lower s = status_value new_status"
    using that by (simp add: update_task_def create_ok upd)
  have b: "update_task r k (Some new_title) None =
        (Inr (Some \<lparr>task_id = k, title = strip new_title, status = status existing\<rparr>),
         AList.update k \<lparr>task_id = k, title = strip new_title, status = status existing\<rparr> r)"
    if "find_by_id r k = Some existing" and "strip new_title \<noteq> []"
    using that by (simp add: update_task_def create_ok lower_status_value upd)
  have c: "update_task r k ttl st = (Inr None, r)" if "find_by_id r k = None"
    using that by (simp add: update_task_def)
  have f: "find_by_id (AList.update k v r) k = Some v" for v
    by (simp add: find_by_id_def update_conv')
  from a b c f show ?thesis by simp
qed

theorem update_task_merge_witness:
  "find_by_id [(''1'', \<lparr>task_id = ''1'', title = ''Buy milk'', status = PENDING\<rparr>)] ''1''
     = Some \<lparr>task_id = ''1'', title = ''Buy milk'', status = PENDING\<rparr>
   \<and> strip ''Buy milk'' \<noteq> [] \<and> lower ''Done'' = status_value DONE
   \<and> update_task [(''1'', \<lparr>task_id = ''1'', title = ''Buy milk'', status = PENDING\<rparr>)]
        ''1'' None (Some ''Done'')
     = (Inr (Some \<lparr>task_id = ''1'', title = ''Buy milk'', status = DONE\<rparr>),
        [(''1'', \<lparr>task_id = ''1'', title = ''Buy milk'', status = DONE\<rparr>)])
   \<and> strip '' Buy bread'' \<noteq> []
   \<and> update_task [(''1'', \<lparr>task_id = ''1'', title = ''Buy milk'', status = PENDING\<rparr>)]
        ''1'' (Some '' Buy bread'') None
     = (Inr (Some \<lparr>task_id = ''1'', title = ''Buy bread'', status = PENDING\<rparr>),
        [(''1'', \<lparr>task_id = ''1'', title = ''Buy bread'', status = PENDING\<rparr>)])
   \<and> find_by_id [(''1'', \<lparr>task_id = ''1'', title = ''Buy milk'', status = PENDING\<rparr>)] ''2'' = None
   \<and> update_task [(''1'', \<lparr>task_id = ''1'', title = ''Buy milk'', status = PENDING\<rparr>)]
        ''2'' None (Some ''done'')
     = (Inr None, [(''1'', \<lparr>task_id = ''1'', title = ''Buy milk'', status = PENDING\<rparr>)])"
proof -
  let ?t = "\<lparr>task_id = ''1'', title = ''Buy milk'', status = PENDING\<rparr>"
  let ?r = "[(''1'', ?t)]"
  have h1: "find_by_id ?r ''1'' = Some ?t" by (simp add: find_by_id_def)
  have t1: "strip ''Buy milk'' = ''Buy milk''" by code_simp
  have t2: "strip '' Buy bread'' = ''Buy bread''" by code_simp
  have l: "lower ''Done'' = status_value DONE" by code_simp
  have h2: "find_by_id ?r ''2'' = None" by (simp add: find_by_id_def)
  from update_task_merge [of ?r "''1''" ?t "''Done''" DONE "'' Buy bread''"]
    update_task_merge [of ?r "''2''" ?t "''Done''" DONE "'' Buy bread''" None "Some ''done''"]
    h1 h2 l
  show ?thesis by (simp add: t1 t2)
qed

text \<open>
  A stored title need not be trimmed: the constructor accepts \<open>'' a''\<close>, and \<open>save\<close> stores
  any Task. A status-only update of such a task returns the title \<open>''a''\<close>, because the
  merged record goes through the factory, which trims.
\<close>

theorem update_task_untrimmed_title_counterexample:
  "Task_init ''1'' '' a'' (EnumV PENDING)
     = Inr \<lparr>task_id = ''1'', title = '' a'', status = PENDING\<rparr>
   \<and> snd (save [] \<lparr>task_id = ''1'', title = '' a'', status = PENDING\<rparr>)
     = [(''1'', \<lparr>task_id = ''1'', title = '' a'', status = PENDING\<rparr>)]
   \<and> fst (update_task [(''1'', \<lparr>task_id = ''1'', title = '' a'', status = PENDING\<rparr>)]
            ''1'' None (Some ''done''))
     = Inr (Some \<lparr>task_id = ''1'', title = ''a'', status = DONE\<rparr>)
   \<and> ''a'' \<noteq> '' a''"
  by code_simp

section \<open>The entity's invariant\<close>

text \<open>
  Claim C8. A Task that the constructor or the factory returns satisfies the invariant:
  its title is neither empty nor blank and its status is \<open>PENDING\<close> or \<open>DONE\<close>. On a Task
  that satisfies it, \<open>mark_as_done\<close> returns a Task with the same id and title and the
  status \<open>DONE\<close>; \<open>update_title\<close> returns a Task with the same id and status and the new
  title, or raises \<open>ValueError\<close> when the new title is blank; the Tasks returned satisfy
  the invariant. Both operations only read \<open>self\<close> and build their result with the
  constructor, so they are functions of the Task they are called on.
\<close>

theorem task_invariant_kept:
  "(Task_init i ttl v = Inr t \<longrightarrow> task_invariant t \<and> task_id t = i)
   \<and> (create ttl' st tid uuid4 = Inr t' \<longrightarrow> task_invariant t')
   \<and> (task_invariant self \<longrightarrow>
         mark_as_done self = Inr \<lparr>task_id = task_id self, title = title self, status = DONE\<rparr>
         \<and> task_invariant \<lparr>task_id = task_id self, title = title self, status = DONE\<rparr>)
   \<and> update_title self new_title =
         (if strip new_title = [] then Inl (ValueError Title_cannot_be_empty)
          else Inr \<lparr>task_id = task_id self, title = new_title, status = status self\<rparr>)
   \<and> (strip new_title \<noteq> [] \<longrightarrow>
         task_invariant \<lparr>task_id = task_id self, title = new_title, status = status self\<rparr>)"
proof -
  have a: "Task_init i ttl v = Inr t \<longrightarrow> task_invariant t \<and> task_id t = i"
    using Task_init_invariant by blast
  have b: "create ttl' st tid uuid4 = Inr t' \<longrightarrow> task_invariant t'"
    using create_invariant by blast
  have c: "task_invariant self \<longrightarrow>
         mark_as_done self = Inr \<lparr>task_id = task_id self, title = title self, status = DONE\<rparr>
         \<and> task_invariant \<lparr>task_id = task_id self, title = title self, status = DONE\<rparr>"
    by (simp add: mark_as_done_def task_invariant_def Task_init_ok)
  have d: "update_title self new_title =
         (if strip new_title = [] then Inl (ValueError Title_cannot_be_empty)
          else Inr \<lparr>task_id = task_id self, title = new_title, status = status self\<rparr>)"
    by (simp add: update_title_def Task_init_ok Task_init_blank)
  have "new_title \<noteq> []" if "strip new_title \<noteq> []"
    using that by (auto simp: strip_Nil)
  with status_defined [of "status self"]
  have e: "strip new_title \<noteq> [] \<longrightarrow>
         task_invariant \<lparr>task_id = task_id self, title = new_title, status = status self\<rparr>"
    by (simp add: task_invariant_def)
  from a b c d e show ?thesis by blast
qed

theorem task_invariant_kept_witness:
  "Task_init ''1'' ''a'' (EnumV PENDING) = Inr \<lparr>task_id = ''1'', title = ''a'', status = PENDING\<rparr>
   \<and> task_invariant \<lparr>task_id = ''1'', title = ''a'', status = PENDING\<rparr>
   \<and> mark_as_done \<lparr>task_id = ''1'', title = ''a'', status = PENDING\<rparr>
       = Inr \<lparr>task_id = ''1'', title = ''a'', status = DONE\<rparr>
   \<and> task_invariant \<lparr>task_id = ''1'', title = ''a'', status = DONE\<rparr>
   \<and> strip ''b'' \<noteq> []
   \<and> update_title \<lparr>task_id = ''1'', title = ''a'', status = PENDING\<rparr> ''b''
       = Inr \<lparr>task_id = ''1'', title = ''b'', status = PENDING\<rparr>
   \<and> task_invariant \<lparr>task_id = ''1'', title = ''b'', status = PENDING\<rparr>"
proof -
  let ?t = "\<lparr>task_id = ''1'', title = ''a'', status = PENDING\<rparr>"
  have i: "Task_init ''1'' ''a'' (EnumV PENDING) = Inr ?t" by code_simp
  have b: "strip ''b'' = ''b''" by code_simp
  from task_invariant_kept [of "''1''" "''a''" "EnumV PENDING" ?t _ _ _ _ _ ?t "''b''"] i
  show ?thesis by (simp add: b)
qed

section \<open>The HTTP adapter: the status filter of GET /tasks\<close>

text \<open>
  With a filter that is \<open>pending\<close> or \<open>done\<close> up to case the handler returns the filtered
  list, and with no filter the whole list. With any other non-empty filter the handler
  evaluates \<open>status.HTTP_400_BAD_REQUEST\<close> on the query string: \<open>AttributeError\<close> is
  raised, caught by \<open>except Exception\<close>, and raised again by
  \<open>status.HTTP_500_INTERNAL_SERVER_ERROR\<close> inside the handler, so it leaves \<open>get_tasks\<close>
  and no \<open>HTTPException\<close> with code 400 is ever raised.
\<close>

lemma get_tasks_valid_filter:
  assumes "lower s = ''pending'' \<or> lower s = ''done''"
  shows "get_tasks r (Some s) = Response 200 (map to_dict (get_tasks_by_status r s))"
proof -
  from assms have "s \<noteq> []" by (auto simp: lower_def)
  with assms show ?thesis
    by (auto simp: get_tasks_def get_tasks_try_def)
qed

lemma get_tasks_no_filter:
  "get_tasks r None = Response 200 (map to_dict (find_all r))"
  by (simp add: get_tasks_def get_tasks_try_def get_all_tasks_def)

lemma get_tasks_invalid_filter:
  assumes "s \<noteq> []" and "lower s \<noteq> ''pending''" and "lower s \<noteq> ''done''"
  shows "get_tasks r (Some s) = Unhandled AttributeError"
  using assms by (simp add: get_tasks_def get_tasks_try_def getattr_param_def)

text \<open>
  Claim C1. The claim asks for a 400 response to \<open>GET /tasks?status=xyz\<close>. The handler
  ends in an unhandled \<open>AttributeError\<close> instead, whatever the repository holds.
\<close>

theorem get_tasks_invalid_filter_not_400:
  "get_tasks r (Some ''xyz'') = Unhandled AttributeError
   \<and> get_tasks r (Some ''xyz'') \<noteq> HTTPException 400"
proof -
  have "lower ''xyz'' = ''xyz''" by code_simp
  then have "get_tasks r (Some ''xyz'') = Unhandled AttributeError"
    by (simp add: get_tasks_def get_tasks_try_def getattr_param_def)
  then show ?thesis by simp
qed

end
